theory Spec2Isabelle
  imports Main "HOL-Library.Word"
begin

text \<open>
  A model of the Go package \<^verbatim>\<open>npipe\<close> (named pipes on Windows as \<^verbatim>\<open>net.Conn\<close> and
  \<^verbatim>\<open>net.Listener\<close>). Each function of the package is a function here, with the same name
  and the same order of checks. What the platform answers to each Win32 call is a
  parameter (the record \<open>os\<close>); a call that may block for ever returns an \<open>option\<close>,
  \<open>None\<close> being "never returns". The bytes moved by a read or a write are not modelled,
  their count is.
\<close>

section \<open>Errors (part\_000)\<close>

text \<open>
  The struct \<^verbatim>\<open>PipeError\<close> has the fields \<^verbatim>\<open>msg\<close> and \<^verbatim>\<open>timeout\<close>; the second is
  \<open>timeout_flag\<close> here, \<open>timeout\<close> being also the name of a function of the package.

  A value of Go's \<^verbatim>\<open>error\<close> interface is \<open>error option\<close>: \<open>None\<close> is \<^verbatim>\<open>nil\<close>.
  The dynamic types that reach the package are modelled by one constructor each:
  \<^item> \<open>Errno c\<close>: a \<^verbatim>\<open>windows.Errno\<close> (an alias of \<^verbatim>\<open>syscall.Errno\<close>) with code \<open>c\<close>;
  \<^item> \<open>Errorf f args\<close>: the \<^verbatim>\<open>*errors.errorString\<close> that \<^verbatim>\<open>fmt.Errorf(f, args...)\<close> returns
    when \<open>f\<close> has no \<^verbatim>\<open>%w\<close> verb (the package never uses \<^verbatim>\<open>%w\<close>); the format and the
    arguments are kept as they are passed, the text is not rendered;
  \<^item> \<open>PipeErr e\<close>: a \<^verbatim>\<open>PipeError\<close> of this package;
  \<^item> \<open>EOF\<close>: \<^verbatim>\<open>io.EOF\<close>.
  Go's \<^verbatim>\<open>err == windows.ERROR_X\<close> compares an interface value with an \<^verbatim>\<open>Errno\<close>
  constant: it holds exactly when the dynamic type is \<^verbatim>\<open>Errno\<close> and the codes agree,
  which is equality with \<open>Some (Errno ERROR_X)\<close> here.
\<close>

datatype PipeError = PipeError (msg: string) (timeout_flag: bool)

datatype error =
    Errno nat
  | Errorf string "fmtarg list"
  | PipeErr PipeError
  | EOF
and fmtarg = S string | D nat | E error

text \<open>\<^verbatim>\<open>var ErrClosed = PipeError{"Pipe has been closed.", false}\<close>\<close>

definition ErrClosed :: PipeError where
  "ErrClosed = PipeError ''Pipe has been closed.'' False"

definition Error :: "PipeError \<Rightarrow> string" where
  "Error e = msg e"

definition Timeout :: "PipeError \<Rightarrow> bool" where
  "Timeout e = timeout_flag e"

definition Temporary :: "PipeError \<Rightarrow> bool" where
  "Temporary e = False"

section \<open>Platform constants and helpers\<close>

text \<open>
  The status codes the package compares against, with the values of
  \<^verbatim>\<open>golang.org/x/sys/windows\<close> (these are the Win32 system error codes).
\<close>

definition ERROR_FILE_NOT_FOUND :: nat where "ERROR_FILE_NOT_FOUND = 2"
definition ERROR_BROKEN_PIPE :: nat where "ERROR_BROKEN_PIPE = 109"
definition ERROR_SEM_TIMEOUT :: nat where "ERROR_SEM_TIMEOUT = 121"
definition ERROR_BAD_PATHNAME :: nat where "ERROR_BAD_PATHNAME = 161"
definition ERROR_PIPE_BUSY :: nat where "ERROR_PIPE_BUSY = 231"
definition ERROR_NO_DATA :: nat where "ERROR_NO_DATA = 232"
definition ERROR_PIPE_CONNECTED :: nat where "ERROR_PIPE_CONNECTED = 535"
definition ERROR_OPERATION_ABORTED :: nat where "ERROR_OPERATION_ABORTED = 995"
definition ERROR_IO_INCOMPLETE :: nat where "ERROR_IO_INCOMPLETE = 996"
definition ERROR_IO_PENDING :: nat where "ERROR_IO_PENDING = 997"

text \<open>\<^verbatim>\<open>syscall.EINVAL\<close> on Windows (an invented code, \<^verbatim>\<open>APPLICATION_ERROR + 39\<close>).\<close>

definition EINVAL :: nat where "EINVAL = 2 ^ 29 + 39"

text \<open>Characters that cannot be written inside a string literal.\<close>

definition bs :: char where "bs = CHR 0x5C"  \<comment> \<open>the backslash\<close>
definition dq :: string where "dq = [CHR 0x22]"  \<comment> \<open>the double quote\<close>
definition sq :: string where "sq = [CHR 0x27]"  \<comment> \<open>the single quote\<close>

type_synonym Handle = nat  \<comment> \<open>\<^verbatim>\<open>windows.Handle\<close>, a \<^verbatim>\<open>uintptr\<close>\<close>
type_synonym Time = int  \<comment> \<open>an instant, in nanoseconds\<close>
type_synonym Duration = int  \<comment> \<open>\<^verbatim>\<open>time.Duration\<close>, in nanoseconds\<close>
type_synonym PipeAddr = string

definition Millisecond :: Duration where "Millisecond = 1000000"

text \<open>
  \<^verbatim>\<open>windows.UTF16PtrFromString\<close> fails with \<^verbatim>\<open>EINVAL\<close> exactly when the string holds a
  NUL byte; the pointer it returns otherwise is modelled by the string itself.
\<close>

definition UTF16PtrFromString :: "string \<Rightarrow> nat + string" where
  "UTF16PtrFromString s = (if CHR 0x00 \<in> set s then Inl EINVAL else Inr s)"

section \<open>Connections and dialing (npipe\_windows.go, addr\_windows.go)\<close>

record PipeConn =
  handle :: Handle
  addr :: PipeAddr
  readDeadline :: "Time option"
  writeDeadline :: "Time option"

definition badAddr :: "string \<Rightarrow> PipeError" where
  "badAddr a = PipeError (''Invalid pipe address '' @ sq @ a @ sq @ ''.'') False"

definition timeout :: "string \<Rightarrow> PipeError" where
  "timeout a = PipeError (''Pipe IO timed out waiting for '' @ sq @ a @ sq) True"

definition isPipeNotReady :: "error \<Rightarrow> bool" where
  "isPipeNotReady e = (e = Errno ERROR_FILE_NOT_FOUND \<or> e = Errno ERROR_PIPE_BUSY)"

text \<open>
  The platform is an oracle: a record of what each Win32 call answers during one
  operation of the package. The wrappers of \<^verbatim>\<open>golang.org/x/sys/windows\<close> return
  \<^verbatim>\<open>nil\<close> or an \<^verbatim>\<open>Errno\<close>, so their errors are codes (\<open>nat option\<close>, \<open>nat + 'a\<close>);
  \<^verbatim>\<open>LazyProc.Call\<close> returns the pair \<open>(ret, lastErr)\<close>, where \<open>lastErr\<close> is the code
  of the \<^verbatim>\<open>Errno\<close> it always returns (0 for none).
  \<^item> \<open>Now\<close> is what \<^verbatim>\<open>time.Now()\<close> reads in \<^verbatim>\<open>completeRequest\<close>;
  \<^item> \<open>completes\<close> says whether the wait with \<^verbatim>\<open>windows.INFINITE\<close> ever returns (an
    overlapped operation that no peer completes and nobody cancels never does);
  \<^item> \<open>timer_first\<close> is the scheduler's choice in \<^verbatim>\<open>completeRequest\<close>'s \<^verbatim>\<open>select\<close>
    when the timer is armed and the wait also returns: whether the timer's channel is
    the one received from.
\<close>

record os =
  WaitNamedPipeW :: "nat \<times> nat"
  CreateFile :: "nat + Handle"
  CreateEvent :: "nat + Handle"
  ReadFile :: "32 word \<times> nat option"
  WriteFile :: "32 word \<times> nat option"
  WaitForSingleObject :: "nat option"
  GetOverlappedResult :: "32 word \<times> nat option"
  CreateNamedPipe :: "nat + Handle"
  ConnectNamedPipe :: "nat option"
  DisconnectNamedPipe :: "nat \<times> nat"
  CancelIoEx :: "nat option"
  CloseHandle :: "Handle \<Rightarrow> nat option"
  Now :: Time
  completes :: bool
  timer_first :: bool

definition waitNamedPipe :: "os \<Rightarrow> string \<Rightarrow> 32 word \<Rightarrow> error option" where
  "waitNamedPipe os name tmo =
     (case WaitNamedPipeW os of (ret, lastErr) \<Rightarrow>
        if lastErr \<noteq> 0
        then Some (Errorf ''npipe.waitNamedPipe(): there was an error calling the Windows API function WaitNamedPipeW with return code %d: %s''
                     [D ret, E (Errno lastErr)])
        else None)"

definition dial :: "os \<Rightarrow> string \<Rightarrow> 32 word \<Rightarrow> error + PipeConn" where
  "dial os address tmo =
     (case UTF16PtrFromString address of
        Inl e \<Rightarrow> Inl (Errorf (''npipe.dial(): there was an error converting '' @ dq @ ''%s'' @ dq @ '' to a UTF16 pointer: %s'')
                       [S address, E (Errno e)])
      | Inr name \<Rightarrow>
          (case waitNamedPipe os name tmo of
             Some e \<Rightarrow>
               if e = Errno ERROR_BAD_PATHNAME then Inl (PipeErr (badAddr address)) else Inl e
           | None \<Rightarrow>
               (case UTF16PtrFromString address of
                  Inl e \<Rightarrow> Inl (Errorf (''npipe.dial(): there was an error converting '' @ dq @ ''%s'' @ dq @ '' to a UTF16 pointer: %s'')
                                 [S address, E (Errno e)])
                | Inr pathp \<Rightarrow>
                    (case CreateFile os of
                       Inl e \<Rightarrow> Inl (Errorf ''npipe.dial(): there was an error calling WINAPI CreateFile: %s'' [E (Errno e)])
                     | Inr h \<Rightarrow> Inr \<lparr>handle = h, addr = address, readDeadline = None, writeDeadline = None\<rparr>))))"

subsection \<open>Dial and DialTimeout\<close>

text \<open>
  \<^verbatim>\<open>Dial\<close> loops for ever, so it is a partial function: \<open>None\<close> is "never returns".
  \<open>oss i\<close> is what the platform answers during attempt \<open>i\<close> (counted from 0). The result
  comes with the list of the sleeps (\<^verbatim>\<open><-time.After(d)\<close>) made on the way, in order.
\<close>

partial_function (option) Dial_loop ::
    "(nat \<Rightarrow> os) \<Rightarrow> string \<Rightarrow> nat \<Rightarrow> Duration list \<Rightarrow> ((error + PipeConn) \<times> Duration list) option" where
  "Dial_loop oss address i sleeps =
     (case dial (oss i) address 0xFFFFFFFF of
        Inr conn \<Rightarrow> Some (Inr conn, sleeps)
      | Inl e \<Rightarrow>
          if isPipeNotReady e
          then Dial_loop oss address (i + 1) (sleeps @ [100 * Millisecond])
          else Some (Inl (Errorf ''npipe.Dial(): %s'' [E e]), sleeps))"

definition Dial :: "(nat \<Rightarrow> os) \<Rightarrow> string \<Rightarrow> ((error + PipeConn) \<times> Duration list) option" where
  "Dial oss address = Dial_loop oss address 0 []"

text \<open>
  Go's integer division truncates towards zero. \<^verbatim>\<open>uint32(x)\<close> of an \<^verbatim>\<open>int64\<close> keeps the
  low 32 bits, which is \<open>word_of_int\<close>. Instants and durations are unbounded integers
  here (nanoseconds): the saturation of \<^verbatim>\<open>Time.Sub\<close> at the ends of \<^verbatim>\<open>int64\<close> (292
  years) is not modelled.
\<close>

definition quo :: "int \<Rightarrow> int \<Rightarrow> int" where
  "quo a b = (if (a < 0) = (b < 0) then \<bar>a\<bar> div \<bar>b\<bar> else - (\<bar>a\<bar> div \<bar>b\<bar>))"

definition timedOutWaiting :: "string \<Rightarrow> PipeError" where
  "timedOutWaiting address =
     PipeError (''npipe.DialTimeout(): timed out waiting for pipe '' @ sq @ address @ sq @ '' to come available'') True"

text \<open>
  \<open>clock k\<close> is what the \<open>k\<close>-th call of \<^verbatim>\<open>time.Now()\<close> reads (counted from 0); \<open>k\<close> is
  the index of the next reading, \<open>i\<close> the index of the next attempt.
\<close>

partial_function (option) DialTimeout_loop ::
    "(nat \<Rightarrow> os) \<Rightarrow> (nat \<Rightarrow> Time) \<Rightarrow> string \<Rightarrow> Time \<Rightarrow> Time \<Rightarrow> nat \<Rightarrow> nat \<Rightarrow> Duration list
       \<Rightarrow> ((error + PipeConn) \<times> Duration list) option" where
  "DialTimeout_loop oss clock address deadline now i k sleeps =
     (if now < deadline
      then
        (case dial (oss i) address (word_of_int (quo (deadline - now) Millisecond)) of
           Inr conn \<Rightarrow> Some (Inr conn, sleeps)
         | Inl e \<Rightarrow>
             if e = Errno ERROR_SEM_TIMEOUT
             then Some (Inl (PipeErr (timedOutWaiting address)), sleeps)
             else if isPipeNotReady e
             then
               (let left = deadline - clock k; retry = 100 * Millisecond in
                DialTimeout_loop oss clock address deadline (clock (k + 1)) (i + 1) (k + 2)
                  (sleeps @ [if left > retry then retry else left - Millisecond]))
             else Some (Inl e, sleeps))
      else Some (Inl (PipeErr (timedOutWaiting address)), sleeps))"

definition DialTimeout ::
    "(nat \<Rightarrow> os) \<Rightarrow> (nat \<Rightarrow> Time) \<Rightarrow> string \<Rightarrow> Duration \<Rightarrow> ((error + PipeConn) \<times> Duration list) option" where
  "DialTimeout oss clock address tmo =
     DialTimeout_loop oss clock address (clock 0 + tmo) (clock 1) 0 2 []"

subsection \<open>Address validation\<close>

text \<open>
  \<^verbatim>\<open>strings.Split(s, sep)\<close> for a separator of one byte (the only use is the backslash):
  the pieces between the occurrences of the separator, empty pieces included, so that a
  string with \<open>k\<close> separators gives \<open>k + 1\<close> pieces.
\<close>

fun Split :: "string \<Rightarrow> char \<Rightarrow> string list" where
  "Split [] c = [[]]"
| "Split (x # xs) c =
     (if x = c then [] # Split xs c
      else (case Split xs c of p # ps \<Rightarrow> (x # p) # ps | [] \<Rightarrow> [[x]]))"

text \<open>
  \<^verbatim>\<open>net.ParseIP\<close> and \<^verbatim>\<open>strings.ToLower\<close> belong to Go's standard library, not to the
  package: they are parameters. \<open>ParseIP s = None\<close> is the \<^verbatim>\<open>nil\<close> result.
\<close>

definition ValidatePipeAddress ::
    "(string \<Rightarrow> string option) \<Rightarrow> (string \<Rightarrow> string) \<Rightarrow> string \<Rightarrow> error option" where
  "ValidatePipeAddress ParseIP ToLower address =
     (let p = Split address bs in
      if length p < 5
      then Some (Errorf (''npipe.ValidatePipeAddress(): expected at least 5 parts from pipe address '' @ dq @ ''%s'' @ dq
                          @ '' but received %d. Example: '' @ [bs, bs] @ ''.'' @ [bs] @ ''pipe'' @ [bs] @ ''srvsvc'')
                   [S address, D (length p)])
      else if p ! 2 \<noteq> ''.'' \<and> ParseIP (p ! 2) = None
      then Some (Errorf (''npipe.ValidatePipeAddress(): invalid IP address '' @ dq @ ''%s'' @ dq) [S (p ! 2)])
      else if ToLower (p ! 3) \<noteq> ''pipe''
      then Some (Errorf (''npipe.ValidatePipeAddress(): expected '' @ dq @ ''pipe'' @ dq @ '' but received '' @ dq @ ''%s'' @ dq)
                   [S (p ! 3)])
      else None)"

text \<open>The addresses of the form \<^verbatim>\<open>\\.\pipe\\<close> followed by a name.\<close>

definition localPipe :: "string \<Rightarrow> string" where
  "localPipe name = [bs, bs] @ ''.'' @ [bs] @ ''pipe'' @ [bs] @ name"

text \<open>
  A lower-casing function for concrete evaluations: it agrees with \<^verbatim>\<open>strings.ToLower\<close>
  on ASCII strings.
\<close>

definition asciiToLower :: "string \<Rightarrow> string" where
  "asciiToLower s =
     map (\<lambda>c. if 65 \<le> (of_char c :: nat) \<and> (of_char c :: nat) \<le> 90
              then char_of ((of_char c :: nat) + 32) else c) s"

section \<open>Reading and writing on a connection (addr\_windows.go)\<close>

text \<open>
  Modelled from the spec: the declaration of the struct \<^verbatim>\<open>iodata\<close> is not among the source
  files. It is the outcome of the spec's completion ticket, "bytes transferred, status
  code"; its uses (\<^verbatim>\<open>iodata{n, err}\<close> with \<^verbatim>\<open>n\<close> a \<^verbatim>\<open>uint32\<close>, \<^verbatim>\<open>data.n\<close>, \<^verbatim>\<open>data.err\<close>) give
  the two fields, \<open>iodata_n\<close> and \<open>iodata_err\<close> here.
\<close>

datatype iodata = iodata (iodata_n: "32 word") (iodata_err: "error option")

text \<open>The completion context \<^verbatim>\<open>windows.Overlapped\<close>, of which only the event handle is used.\<close>

record Overlapped =
  HEvent :: Handle

definition newOverlapped :: "os \<Rightarrow> error + Overlapped" where
  "newOverlapped os =
     (case CreateEvent os of
        Inl e \<Rightarrow> Inl (Errorf ''npipe.newOverlapped(): there was an error callling WINAPI CreateEvent: %s'' [E (Errno e)])
      | Inr event \<Rightarrow> Inr \<lparr>HEvent = event\<rparr>)"

text \<open>
  \<^verbatim>\<open>waitForCompletion\<close>, once the wait has returned (whether it returns is \<open>completes\<close>,
  read by the callers).
\<close>

definition waitForCompletion :: "os \<Rightarrow> Handle \<Rightarrow> Overlapped \<Rightarrow> 32 word \<times> error option" where
  "waitForCompletion os h overlapped =
     (case WaitForSingleObject os of
        Some e \<Rightarrow>
          (0, Some (Errorf ''npipe.waitForCompletion(): there was an error calling WINAPI WaitForSingleObject: %s''
                      [E (Errno e)]))
      | None \<Rightarrow>
          (case GetOverlappedResult os of
             (transferred, Some e) \<Rightarrow>
               (transferred,
                Some (Errorf ''npipe.waitForCompletion(): there was an error calling WINAPI GetOverlappedResult: %s''
                        [E (Errno e)]))
           | (transferred, None) \<Rightarrow> (transferred, None)))"

text \<open>
  The \<^verbatim>\<open>select\<close> of \<^verbatim>\<open>completeRequest\<close> over the channel \<^verbatim>\<open>done\<close> and the timer's
  channel. \<open>timer = None\<close> is the \<^verbatim>\<open>nil\<close> channel, which is never ready. The result
  \<open>None\<close> is a \<^verbatim>\<open>select\<close> that blocks for ever. An armed timer always fires in the end,
  so it is received from when the wait never returns or the scheduler takes it first.
\<close>

datatype selected = FromDone iodata | FromTimer

definition select_done_timer :: "os \<Rightarrow> iodata \<Rightarrow> Duration option \<Rightarrow> selected option" where
  "select_done_timer os sent timer =
     (case timer of
        None \<Rightarrow> if completes os then Some (FromDone sent) else None
      | Some d \<Rightarrow> if completes os \<and> \<not> timer_first os then Some (FromDone sent) else Some FromTimer)"

text \<open>
  \<^verbatim>\<open>c.addr.String()\<close> is the address itself, and \<^verbatim>\<open>int(data.n)\<close> is \<open>uint\<close>: the \<^verbatim>\<open>int\<close> of a
  64-bit platform holds every \<^verbatim>\<open>uint32\<close>. The result \<open>None\<close> is a call that never returns.
\<close>

definition completeRequest ::
    "os \<Rightarrow> PipeConn \<Rightarrow> iodata \<Rightarrow> Time option \<Rightarrow> Overlapped \<Rightarrow> (int \<times> error option) option" where
  "completeRequest os c data deadline overlapped =
     (let waited =
        (if iodata_err data = Some (Errno ERROR_IO_INCOMPLETE) \<or> iodata_err data = Some (Errno ERROR_IO_PENDING)
         then
           (let timer = (case deadline of
                           None \<Rightarrow> None
                         | Some d \<Rightarrow> (let timeDiff = d - Now os in if timeDiff > 0 then Some timeDiff else None))
            in case select_done_timer os
                      (case waitForCompletion os (handle c) overlapped of (n, e) \<Rightarrow> iodata n e) timer of
                 None \<Rightarrow> None
               | Some (FromDone sent) \<Rightarrow> Some sent
               | Some FromTimer \<Rightarrow> Some (iodata 0 (Some (PipeErr (timeout (addr c))))))
         else Some data)
      in case waited of
           None \<Rightarrow> None
         | Some data' \<Rightarrow>
             Some (uint (iodata_n data'),
                   if iodata_err data' = Some (Errno ERROR_BROKEN_PIPE) then Some EOF else iodata_err data'))"

definition Read :: "os \<Rightarrow> PipeConn \<Rightarrow> (int \<times> error option) option" where
  "Read os c =
     (case newOverlapped os of
        Inl e \<Rightarrow> Some (0, Some (Errorf ''npipe.PipeConn.Read(): %s'' [E e]))
      | Inr overlapped \<Rightarrow>
          (case ReadFile os of (n, e) \<Rightarrow>
             completeRequest os c (iodata n (map_option Errno e)) (readDeadline c) overlapped))"

definition Write :: "os \<Rightarrow> PipeConn \<Rightarrow> (int \<times> error option) option" where
  "Write os c =
     (case newOverlapped os of
        Inl e \<Rightarrow> Some (0, Some (Errorf ''npipe.PipeConn.Write(): %s'' [E e]))
      | Inr overlapped \<Rightarrow>
          (case WriteFile os of (n, e) \<Rightarrow>
             completeRequest os c (iodata n (map_option Errno e)) (writeDeadline c) overlapped))"

text \<open>The setters return the error (always \<^verbatim>\<open>nil\<close>) and the connection as updated.\<close>

definition SetReadDeadline :: "PipeConn \<Rightarrow> Time \<Rightarrow> error option \<times> PipeConn" where
  "SetReadDeadline c t = (None, c\<lparr>readDeadline := Some t\<rparr>)"

definition SetWriteDeadline :: "PipeConn \<Rightarrow> Time \<Rightarrow> error option \<times> PipeConn" where
  "SetWriteDeadline c t = (None, c\<lparr>writeDeadline := Some t\<rparr>)"

definition SetDeadline :: "PipeConn \<Rightarrow> Time \<Rightarrow> error option \<times> PipeConn" where
  "SetDeadline c t =
     (case SetReadDeadline c t of
        (Some e, c') \<Rightarrow> (Some (Errorf ''npipe.PipeConn.SetDeadline(): %s'' [E e]), c')
      | (None, c') \<Rightarrow>
          (case SetWriteDeadline c' t of
             (Some e, c'') \<Rightarrow> (Some (Errorf ''npipe.PipeConn.SetDeadline(): %s'' [E e]), c'')
           | (None, c'') \<Rightarrow> (None, c'')))"

section \<open>The listener (listener\_windows.go)\<close>

text \<open>
  The mutex is not modelled: the operations run one at a time, except that
  \<^verbatim>\<open>AcceptPipe\<close> releases the mutex while it waits (see below). The fields \<open>addr\<close> and
  \<open>handle\<close> are named as in the source; those of a connection are \<open>PipeConn.addr\<close> and
  \<open>PipeConn.handle\<close> from here on.
\<close>

record PipeListener =
  addr :: PipeAddr
  handle :: Handle
  closed :: bool
  acceptHandle :: Handle
  acceptOverlapped :: "Overlapped option"

definition PIPE_ACCESS_DUPLEX :: "32 word" where "PIPE_ACCESS_DUPLEX = 0x3"
definition FILE_FLAG_OVERLAPPED :: "32 word" where "FILE_FLAG_OVERLAPPED = 0x40000000"
definition FILE_FLAG_FIRST_PIPE_INSTANCE :: "32 word" where "FILE_FLAG_FIRST_PIPE_INSTANCE = 0x80000"
definition PIPE_TYPE_BYTE :: "32 word" where "PIPE_TYPE_BYTE = 0x0"
definition PIPE_UNLIMITED_INSTANCES :: "32 word" where "PIPE_UNLIMITED_INSTANCES = 255"

text \<open>
  The listener's operations return, with their result, the calls they made that create
  or connect a pipe instance, in order: \<^verbatim>\<open>CreateNamedPipe\<close> with its name, open mode, pipe
  mode, maximal number of instances, buffer sizes and default timeout (the security
  attributes, passed through unchanged, are left out), and \<^verbatim>\<open>ConnectNamedPipe\<close> with the
  handle of the instance.
\<close>

datatype call =
    CallCreateNamedPipe string "32 word" "32 word" "32 word" "32 word" "32 word" "32 word"
  | CallConnectNamedPipe Handle

definition NewPipeListener ::
    "(string \<Rightarrow> string option) \<Rightarrow> (string \<Rightarrow> string) \<Rightarrow> os \<Rightarrow> string
       \<Rightarrow> 32 word \<Rightarrow> 32 word \<Rightarrow> 32 word \<Rightarrow> 32 word \<Rightarrow> 32 word \<Rightarrow> 32 word
       \<Rightarrow> (error + PipeListener) \<times> call list" where
  "NewPipeListener ParseIP ToLower os name openMode pipeMode maxInstances outBuffer inBuffer tmo =
     (case ValidatePipeAddress ParseIP ToLower name of
        Some e \<Rightarrow> (Inl (Errorf ''npipe.NewPipeListener(): %s'' [E e]), [])
      | None \<Rightarrow>
          (case UTF16PtrFromString name of
             Inl e \<Rightarrow>
               (Inl (Errorf (''npipe.NewPipeListener(): there was an error converting '' @ dq @ ''%s'' @ dq
                              @ '' to a UTF16 pointer: %s'') [S name, E (Errno e)]), [])
           | Inr lpName \<Rightarrow>
               (case CreateNamedPipe os of
                  Inl e \<Rightarrow>
                    (Inl (Errorf ''npipe.NewPipeListener(): there was an error calling the WINAPI CreateNamedPipe function: %s''
                            [E (Errno e)]),
                     [CallCreateNamedPipe lpName openMode pipeMode maxInstances outBuffer inBuffer tmo])
                | Inr h \<Rightarrow>
                    (Inr \<lparr>addr = name, handle = h, closed = False, acceptHandle = 0, acceptOverlapped = None\<rparr>,
                     [CallCreateNamedPipe lpName openMode pipeMode maxInstances outBuffer inBuffer tmo]))))"

definition NewPipeListenerQuick ::
    "(string \<Rightarrow> string option) \<Rightarrow> (string \<Rightarrow> string) \<Rightarrow> os \<Rightarrow> string \<Rightarrow> bool
       \<Rightarrow> (error + PipeListener) \<times> call list" where
  "NewPipeListenerQuick ParseIP ToLower os name first =
     (let mode = or PIPE_ACCESS_DUPLEX FILE_FLAG_OVERLAPPED;
          mode = (if first then or mode FILE_FLAG_FIRST_PIPE_INSTANCE else mode)
      in case NewPipeListener ParseIP ToLower os name mode PIPE_TYPE_BYTE PIPE_UNLIMITED_INSTANCES 512 512 0 of
           (Inl e, calls) \<Rightarrow> (Inl (Errorf (dq @ ''npipe.NewPipeListenerQuick(): %s'' @ dq) [E e]), calls)
         | (Inr l, calls) \<Rightarrow> (Inr l, calls))"

definition Listen ::
    "(string \<Rightarrow> string option) \<Rightarrow> (string \<Rightarrow> string) \<Rightarrow> os \<Rightarrow> string \<Rightarrow> (error + PipeListener) \<times> call list" where
  "Listen ParseIP ToLower os address =
     (case NewPipeListenerQuick ParseIP ToLower os address True of
        (Inl e, calls) \<Rightarrow> (Inl (Errorf ''npipe.Listen(): %s'' [E e]), calls)
      | (Inr l, calls) \<Rightarrow> (Inr l, calls))"

text \<open>
  The end of \<^verbatim>\<open>AcceptPipe\<close>, from the status \<open>err\<close> of the connect: a cancelled
  operation gives \<open>ErrClosed\<close>, another error is returned as it is, none gives the
  connection on the instance \<open>h\<close>.
\<close>

definition AcceptPipe_return :: "error option \<Rightarrow> PipeListener \<Rightarrow> Handle \<Rightarrow> error + PipeConn" where
  "AcceptPipe_return err l h =
     (if err = Some (Errno ERROR_OPERATION_ABORTED) then Inl (PipeErr ErrClosed)
      else (case err of
              Some e \<Rightarrow> Inl e
            | None \<Rightarrow> Inr \<lparr>PipeConn.handle = h, PipeConn.addr = addr l, readDeadline = None, writeDeadline = None\<rparr>))"

text \<open>
  \<^verbatim>\<open>AcceptPipe\<close> from the call of \<^verbatim>\<open>newOverlapped\<close> on, for the instance \<open>h\<close>. When the
  connect is pending the mutex is released during the wait: \<open>during\<close> is what the other
  threads (a concurrent \<^verbatim>\<open>Close\<close>) do to the listener meanwhile, the identity when
  there is none. The deferred function then clears the record of the outstanding accept.
  The result \<open>None\<close> is a wait that never returns.
\<close>

definition AcceptPipe_connect ::
    "os \<Rightarrow> (PipeListener \<Rightarrow> PipeListener) \<Rightarrow> PipeListener \<Rightarrow> Handle \<Rightarrow> call list
       \<Rightarrow> ((error + PipeConn) \<times> PipeListener option \<times> call list) option" where
  "AcceptPipe_connect os during l h calls =
     (case newOverlapped os of
        Inl e \<Rightarrow> Some (Inl e, Some l, calls)
      | Inr overlapped \<Rightarrow>
          (let err = map_option Errno (ConnectNamedPipe os);
               calls = calls @ [CallConnectNamedPipe h]
           in if err = None \<or> err = Some (Errno ERROR_PIPE_CONNECTED)
              then Some (Inr \<lparr>PipeConn.handle = h, PipeConn.addr = addr l, readDeadline = None, writeDeadline = None\<rparr>,
                         Some l, calls)
              else if err = Some (Errno ERROR_IO_INCOMPLETE) \<or> err = Some (Errno ERROR_IO_PENDING)
              then
                (if completes os
                 then
                   (let waiting = during (l\<lparr>acceptOverlapped := Some overlapped, acceptHandle := h\<rparr>);
                        err = snd (waitForCompletion os h overlapped);
                        l' = waiting\<lparr>acceptOverlapped := None, acceptHandle := 0\<rparr>
                    in Some (AcceptPipe_return err l' h, Some l', calls))
                 else None)
              else Some (AcceptPipe_return err l h, Some l, calls)))"

text \<open>The receiver is a pointer: \<open>None\<close> is \<^verbatim>\<open>nil\<close>.\<close>

definition AcceptPipe ::
    "os \<Rightarrow> (PipeListener \<Rightarrow> PipeListener) \<Rightarrow> PipeListener option
       \<Rightarrow> ((error + PipeConn) \<times> PipeListener option \<times> call list) option" where
  "AcceptPipe os during lp =
     (case lp of
        None \<Rightarrow> Some (Inl (Errorf ''npipe.PipeListener.AcceptPipe(): the PipeListener is nil'' []), None, [])
      | Some l \<Rightarrow>
          if addr l = [] \<or> closed l
          then Some (Inl (Errorf ''npipe.PipeListener.AcceptPipe(): the address is empty or the listener is closed'' []),
                     Some l, [])
          else if handle l = 0
          then
            (case UTF16PtrFromString (addr l) of
               Inl e \<Rightarrow>
                 Some (Inl (Errorf (''npipe.PipeListener.AcceptPipe(): there was an error converting '' @ dq @ ''%s'' @ dq
                                     @ '' to a UTF16 pointer: %s'') [S (addr l), E (Errno e)]),
                       Some l, [])
             | Inr lpName \<Rightarrow>
                 (let calls = [CallCreateNamedPipe lpName (or PIPE_ACCESS_DUPLEX FILE_FLAG_OVERLAPPED)
                                 PIPE_TYPE_BYTE PIPE_UNLIMITED_INSTANCES 512 512 0]
                  in case CreateNamedPipe os of
                       Inl e \<Rightarrow> Some (Inl (Errno e), Some l, calls)
                     | Inr h \<Rightarrow> AcceptPipe_connect os during l h calls))
          else AcceptPipe_connect os during (l\<lparr>handle := 0\<rparr>) (handle l) [])"

subsection \<open>Close\<close>

definition disconnectNamedPipe :: "os \<Rightarrow> Handle \<Rightarrow> error option" where
  "disconnectNamedPipe os h =
     (case DisconnectNamedPipe os of (ret, lastErr) \<Rightarrow>
        if lastErr \<noteq> 0
        then Some (Errorf ''npipe.disconnectNamedPipe(): there was an error calling the Windows API function DisconnectNamedPipe with return code %d: %s''
                     [D ret, E (Errno lastErr)])
        else None)"

text \<open>
  The second half of \<^verbatim>\<open>Close\<close>: the cancellation of an outstanding accept. The
  assignment \<^verbatim>\<open>l.acceptOverlapped.HEvent = 0\<close> writes through the pointer that the
  waiting \<^verbatim>\<open>AcceptPipe\<close> holds too; here it is an update of the listener's copy.
\<close>

definition Close_accept :: "os \<Rightarrow> PipeListener \<Rightarrow> error option \<times> PipeListener" where
  "Close_accept os l =
     (case acceptOverlapped l of
        None \<Rightarrow> (None, l)
      | Some overlapped \<Rightarrow>
          if acceptHandle l \<noteq> 0
          then
            (case CancelIoEx os of
               Some e \<Rightarrow> (Some (Errno e), l)
             | None \<Rightarrow>
                 (case CloseHandle os (HEvent overlapped) of
                    Some e \<Rightarrow> (Some (Errno e), l)
                  | None \<Rightarrow>
                      (let l' = l\<lparr>acceptOverlapped := Some (overlapped\<lparr>HEvent := 0\<rparr>)\<rparr>
                       in case CloseHandle os (acceptHandle l') of
                            Some e \<Rightarrow> (Some (Errno e), l')
                          | None \<Rightarrow> (None, l'\<lparr>acceptHandle := 0\<rparr>))))
          else (None, l))"

definition Close :: "os \<Rightarrow> PipeListener \<Rightarrow> error option \<times> PipeListener" where
  "Close os l =
     (if closed l then (None, l)
      else
        (let l' = l\<lparr>closed := True\<rparr>
         in if handle l' \<noteq> 0
            then
              (case disconnectNamedPipe os (handle l') of
                 Some e \<Rightarrow> (Some e, l')
               | None \<Rightarrow>
                   (case CloseHandle os (handle l') of
                      Some e \<Rightarrow> (Some (Errno e), l')
                    | None \<Rightarrow> Close_accept os (l'\<lparr>handle := 0\<rparr>)))
            else Close_accept os l'))"

subsection \<open>Successive accepts\<close>

text \<open>
  A server's accept loop without interference: one \<^verbatim>\<open>AcceptPipe\<close> on the listener for each
  element of \<open>oss\<close> (what the platform answers during that call), each on the listener as
  the call before left it. The result lists, per call, what it returned, the listener
  after it and the calls it made; it is \<open>None\<close> when one of the calls never returns.
\<close>

fun AcceptPipe_run ::
    "os list \<Rightarrow> PipeListener option \<Rightarrow> ((error + PipeConn) \<times> PipeListener option \<times> call list) list option" where
  "AcceptPipe_run [] lp = Some []"
| "AcceptPipe_run (os # oss) lp =
     (case AcceptPipe os (\<lambda>l. l) lp of
        None \<Rightarrow> None
      | Some (r, lp', calls) \<Rightarrow>
          (case AcceptPipe_run oss lp' of
             None \<Rightarrow> None
           | Some rest \<Rightarrow> Some ((r, lp', calls) # rest)))"

section \<open>Timeout-flagged results and concrete inputs\<close>

text \<open>
  A result of \<^verbatim>\<open>Read\<close> or \<^verbatim>\<open>Write\<close> that is a timeout-flagged error: a \<open>PipeError\<close> whose
  \<open>Timeout\<close> is true. (Of the other errors, \<^verbatim>\<open>errorString\<close> and \<^verbatim>\<open>io.EOF\<close> have no
  \<^verbatim>\<open>Timeout\<close> method, and an \<^verbatim>\<open>Errno\<close> reports a timeout only for codes that Go invents
  above \<open>2 ^ 29\<close>, which no Win32 call returns.)
\<close>

definition timeoutFlagged :: "error option \<Rightarrow> bool" where
  "timeoutFlagged e = (case e of Some (PipeErr p) \<Rightarrow> Timeout p | _ \<Rightarrow> False)"

definition returnsTimeout :: "(int \<times> error option) option \<Rightarrow> bool" where
  "returnsTimeout r = (case r of Some (n, e) \<Rightarrow> timeoutFlagged e | None \<Rightarrow> False)"

text \<open>
  A platform on which every call succeeds at once, a connection and the default
  arguments, for the evaluations at concrete inputs.
\<close>

definition os_ok :: os where
  "os_ok =
     \<lparr>WaitNamedPipeW = (1, 0), CreateFile = Inr 7, CreateEvent = Inr 9,
      ReadFile = (0, None), WriteFile = (0, None),
      WaitForSingleObject = None, GetOverlappedResult = (0, None),
      CreateNamedPipe = Inr 5, ConnectNamedPipe = None, DisconnectNamedPipe = (1, 0),
      CancelIoEx = None, CloseHandle = (\<lambda>h. None),
      Now = 0, completes = True, timer_first = False\<rparr>"

definition conn0 :: PipeConn where
  "conn0 = \<lparr>PipeConn.handle = 7, PipeConn.addr = localPipe ''srvsvc'', readDeadline = None, writeDeadline = None\<rparr>"

definition noIP :: "string \<Rightarrow> string option" where
  "noIP s = None"

definition listener0 :: PipeListener where
  "listener0 =
     \<lparr>addr = localPipe ''srvsvc'', handle = 5, closed = False, acceptHandle = 0, acceptOverlapped = None\<rparr>"

definition shortAddr :: string where
  "shortAddr = [bs, bs] @ ''.'' @ [bs] @ ''pipe''"

definition mailslotAddr :: string where
  "mailslotAddr = [bs, bs] @ ''.'' @ [bs] @ ''mailslot'' @ [bs] @ ''srvsvc''"

definition serverAddr :: string where
  "serverAddr = [bs, bs] @ ''server'' @ [bs] @ ''pipe'' @ [bs] @ ''srvsvc''"

text \<open>The call with which \<^verbatim>\<open>AcceptPipe\<close> creates an instance of the pipe \<open>name\<close>.\<close>

definition newInstance :: "string \<Rightarrow> call" where
  "newInstance name =
     CallCreateNamedPipe name (or PIPE_ACCESS_DUPLEX FILE_FLAG_OVERLAPPED) PIPE_TYPE_BYTE
       PIPE_UNLIMITED_INSTANCES 512 512 0"

section \<open>Properties\<close>

lemmas errno_defs =
  ERROR_FILE_NOT_FOUND_def ERROR_BROKEN_PIPE_def ERROR_SEM_TIMEOUT_def
  ERROR_BAD_PATHNAME_def ERROR_PIPE_BUSY_def ERROR_NO_DATA_def ERROR_PIPE_CONNECTED_def
  ERROR_OPERATION_ABORTED_def ERROR_IO_INCOMPLETE_def ERROR_IO_PENDING_def EINVAL_def

subsection \<open>What dial can return\<close>

text \<open>
  \<^verbatim>\<open>waitNamedPipe\<close> wraps every status of \<^verbatim>\<open>WaitNamedPipeW\<close> in a new \<^verbatim>\<open>errorString\<close>, and
  \<^verbatim>\<open>dial\<close> wraps those of the conversion and of \<^verbatim>\<open>CreateFile\<close>: no error of \<^verbatim>\<open>dial\<close> is
  an \<^verbatim>\<open>Errno\<close>, so none equals \<^verbatim>\<open>ERROR_BAD_PATHNAME\<close>, \<^verbatim>\<open>ERROR_SEM_TIMEOUT\<close>,
  \<^verbatim>\<open>ERROR_FILE_NOT_FOUND\<close> or \<^verbatim>\<open>ERROR_PIPE_BUSY\<close>.
\<close>

lemma waitNamedPipe_Errorf:
  "waitNamedPipe os name tmo = Some e \<Longrightarrow> \<exists>f args. e = Errorf f args"
  by (auto simp: waitNamedPipe_def split: prod.splits if_splits)

lemma dial_Inl_Errorf:
  assumes "dial os address tmo = Inl e"
  shows "\<exists>f args. e = Errorf f args"
  using assms
  by (auto simp: dial_def split: sum.splits option.splits if_splits dest: waitNamedPipe_Errorf)

lemma dial_never_retryable:
  "dial os address tmo = Inl e \<Longrightarrow> \<not> isPipeNotReady e \<and> e \<noteq> Errno c"
  by (auto simp: isPipeNotReady_def dest: dial_Inl_Errorf)

text \<open>Hence both loops return after their first attempt, whatever the platform answers.\<close>

lemma Dial_one_attempt:
  "Dial oss address =
     Some (case dial (oss 0) address 0xFFFFFFFF of
             Inr conn \<Rightarrow> Inr conn
           | Inl e \<Rightarrow> Inl (Errorf ''npipe.Dial(): %s'' [E e]), [])"
  unfolding Dial_def
  by (subst Dial_loop.simps) (auto split: sum.splits dest: dial_never_retryable)

lemma DialTimeout_one_attempt:
  "DialTimeout oss clock address tmo =
     Some (if clock 1 < clock 0 + tmo
           then dial (oss 0) address (word_of_int (quo (clock 0 + tmo - clock 1) Millisecond))
           else Inl (PipeErr (timedOutWaiting address)), [])"
  unfolding DialTimeout_def
  by (subst DialTimeout_loop.simps) (auto split: sum.splits dest: dial_never_retryable)

subsection \<open>Completing a request\<close>

lemma waitForCompletion_not_PipeErr:
  "snd (waitForCompletion os h ov) \<noteq> Some (PipeErr p)"
  by (simp add: waitForCompletion_def split: option.splits prod.splits)

lemma completeRequest_not_pending:
  assumes "e \<noteq> Some (Errno ERROR_IO_INCOMPLETE)" and "e \<noteq> Some (Errno ERROR_IO_PENDING)"
  shows "completeRequest os c (iodata n e) deadline overlapped
           = Some (uint n, if e = Some (Errno ERROR_BROKEN_PIPE) then Some EOF else e)"
  using assms by (simp add: completeRequest_def)

text \<open>A deadline that is not after the clock's reading arms no timer.\<close>

lemma completeRequest_past_deadline:
  "d \<le> Now os \<Longrightarrow> completeRequest os c data (Some d) ov = completeRequest os c data None ov"
  by (simp add: completeRequest_def Let_def)

lemma completeRequest_conn_cong:
  "PipeConn.handle c = PipeConn.handle c' \<Longrightarrow> PipeConn.addr c = PipeConn.addr c' \<Longrightarrow>
     completeRequest os c data dl ov = completeRequest os c' data dl ov"
  by (simp add: completeRequest_def cong: option.case_cong selected.case_cong)

lemma completeRequest_no_deadline_not_PipeErr:
  assumes "iodata_err data \<noteq> Some (PipeErr p)"
  shows "completeRequest os c data None ov \<noteq> Some (n, Some (PipeErr p))"
  using assms waitForCompletion_not_PipeErr[of os "PipeConn.handle c" ov p]
  by (auto simp: completeRequest_def select_done_timer_def Let_def split: if_splits prod.splits)

lemma Read_no_deadline_not_PipeErr:
  assumes dl: "readDeadline c = None"
  shows "Read os c \<noteq> Some (n, Some (PipeErr p))"
proof -
  have "\<And>w st ov. completeRequest os c (iodata w (map_option Errno st)) None ov \<noteq> Some (n, Some (PipeErr p))"
    by (rule completeRequest_no_deadline_not_PipeErr) (simp split: option.splits)
  then show ?thesis
    by (simp add: Read_def dl split: sum.splits prod.splits)
qed

text \<open>
  \<^verbatim>\<open>waitForCompletion\<close> wraps every status in a new \<^verbatim>\<open>errorString\<close>: what it returns is
  never an \<^verbatim>\<open>Errno\<close>. So a request that was pending at issue time never ends in \<^verbatim>\<open>io.EOF\<close>,
  whatever the platform answers.
\<close>

lemma waitForCompletion_not_Errno:
  "snd (waitForCompletion os h ov) \<noteq> Some (Errno c)"
  by (simp add: waitForCompletion_def split: option.splits prod.splits)

lemma completeRequest_pending_never_EOF:
  assumes "iodata_err data = Some (Errno ERROR_IO_PENDING) \<or> iodata_err data = Some (Errno ERROR_IO_INCOMPLETE)"
  shows "completeRequest os c data deadline ov \<noteq> Some (m, Some EOF)"
proof -
  obtain w e where we: "waitForCompletion os (PipeConn.handle c) ov = (w, e)"
    by (cases "waitForCompletion os (PipeConn.handle c) ov")
  with waitForCompletion_not_Errno[of os "PipeConn.handle c" ov ERROR_BROKEN_PIPE]
  have e: "e \<noteq> Some (Errno ERROR_BROKEN_PIPE)" by simp
  have eof: "e \<noteq> Some EOF"
    using we by (auto simp: waitForCompletion_def split: option.splits prod.splits)
  show ?thesis
    using assms we e eof
    by (auto simp: completeRequest_def select_done_timer_def Let_def split: option.splits if_splits)
qed

lemma Read_pending_never_EOF:
  assumes "ReadFile os = (n, Some ERROR_IO_PENDING) \<or> ReadFile os = (n, Some ERROR_IO_INCOMPLETE)"
  shows "Read os c \<noteq> Some (m, Some EOF)"
  using assms completeRequest_pending_never_EOF[of "iodata n (Some (Errno ERROR_IO_PENDING))" os c "readDeadline c" _ m]
    completeRequest_pending_never_EOF[of "iodata n (Some (Errno ERROR_IO_INCOMPLETE))" os c "readDeadline c" _ m]
  by (auto simp: Read_def split: sum.splits)

subsection \<open>Splitting an address\<close>

lemma Split_nonempty: "Split s c \<noteq> []"
  by (induction s) (auto split: list.splits)

lemma Split_append_sep: "c \<notin> set w \<Longrightarrow> Split (w @ c # rest) c = w # Split rest c"
  by (induction w) auto

lemma Split_localPipe:
  "Split (localPipe name) bs = [[], [], ''.'', ''pipe''] @ Split name bs"
proof -
  have 1: "Split (''pipe'' @ bs # name) bs = ''pipe'' # Split name bs"
    by (rule Split_append_sep) (simp add: bs_def)
  have 2: "Split (''.'' @ bs # (''pipe'' @ bs # name)) bs = ''.'' # Split (''pipe'' @ bs # name) bs"
    by (rule Split_append_sep) (simp add: bs_def)
  have 3: "Split ([] @ bs # (''.'' @ bs # (''pipe'' @ bs # name))) bs
             = [] # Split (''.'' @ bs # (''pipe'' @ bs # name)) bs"
    by (rule Split_append_sep) simp
  have 4: "Split ([] @ bs # ([] @ bs # (''.'' @ bs # (''pipe'' @ bs # name)))) bs
             = [] # Split ([] @ bs # (''.'' @ bs # (''pipe'' @ bs # name))) bs"
    by (rule Split_append_sep) simp
  have "localPipe name = [] @ bs # ([] @ bs # (''.'' @ bs # (''pipe'' @ bs # name)))"
    by (simp add: localPipe_def)
  then show ?thesis by (simp only: 1 2 3 4) simp
qed

lemma Split_localPipe_length: "5 \<le> length (Split (localPipe name) bs)"
  using Split_nonempty[of name bs] by (cases "Split name bs") (simp_all add: Split_localPipe)

subsection \<open>The listener's handle\<close>

text \<open>
  A listener that \<^verbatim>\<open>NewPipeListener\<close> returns is open, carries the name it was given and
  the handle of the instance created for it; the name is not empty and has no NUL byte.
\<close>

lemma NewPipeListener_Inr:
  assumes "NewPipeListener ParseIP ToLower os name openMode pipeMode maxInstances outBuffer inBuffer tmo
             = (Inr l, calls)"
  shows "addr l = name \<and> \<not> closed l \<and> CreateNamedPipe os = Inr (handle l) \<and> name \<noteq> []
         \<and> CHR 0x00 \<notin> set name
         \<and> calls = [CallCreateNamedPipe name openMode pipeMode maxInstances outBuffer inBuffer tmo]"
proof -
  from assms have v: "ValidatePipeAddress ParseIP ToLower name = None"
    by (auto simp: NewPipeListener_def split: option.splits)
  have ne: "name \<noteq> []"
  proof
    assume "name = []"
    then have "ValidatePipeAddress ParseIP ToLower name \<noteq> None"
      by (simp add: ValidatePipeAddress_def)
    with v show False by simp
  qed
  from assms v have u: "UTF16PtrFromString name = Inr name"
    by (auto simp: NewPipeListener_def UTF16PtrFromString_def split: sum.splits if_splits)
  then have nul: "CHR 0x00 \<notin> set name"
    by (auto simp: UTF16PtrFromString_def split: if_splits)
  from assms v u have "CreateNamedPipe os = Inr (handle l) \<and> addr l = name \<and> \<not> closed l
      \<and> calls = [CallCreateNamedPipe name openMode pipeMode maxInstances outBuffer inBuffer tmo]"
    by (auto simp: NewPipeListener_def split: sum.splits)
  with ne nul show ?thesis by simp
qed

lemma AcceptPipe_connect_alone:
  assumes "AcceptPipe_connect os (\<lambda>l. l) l h calls = Some (r, lp', calls')"
  shows "(\<exists>l'. lp' = Some l' \<and> handle l' = handle l \<and> closed l' = closed l \<and> addr l' = addr l)
         \<and> (calls' = calls \<or> calls' = calls @ [CallConnectNamedPipe h])
         \<and> (\<forall>c. r = Inr c \<longrightarrow> PipeConn.handle c = h \<and> PipeConn.addr c = addr l)"
  using assms
  by (auto simp: AcceptPipe_connect_def AcceptPipe_return_def Let_def
        split: sum.splits if_splits option.splits)

lemma AcceptPipe_first:
  assumes "handle l \<noteq> 0" and "\<not> closed l" and "addr l \<noteq> []"
  shows "AcceptPipe os during (Some l) = AcceptPipe_connect os during (l\<lparr>handle := 0\<rparr>) (handle l) []"
  using assms by (simp add: AcceptPipe_def)

lemma AcceptPipe_later:
  assumes "handle l = 0" and "\<not> closed l" and "addr l \<noteq> []" and "CHR 0x00 \<notin> set (addr l)"
  shows "AcceptPipe os during (Some l) =
           (case CreateNamedPipe os of
              Inl e \<Rightarrow> Some (Inl (Errno e), Some l, [newInstance (addr l)])
            | Inr h \<Rightarrow> AcceptPipe_connect os during l h [newInstance (addr l)])"
  using assms
  by (simp add: AcceptPipe_def UTF16PtrFromString_def Let_def newInstance_def split: sum.splits)

lemma AcceptPipe_later_step:
  assumes "handle l = 0" and "\<not> closed l" and "addr l \<noteq> []" and "CHR 0x00 \<notin> set (addr l)"
    and "AcceptPipe os (\<lambda>l. l) (Some l) = Some (r, lp', calls)"
  shows "(\<exists>l'. lp' = Some l' \<and> handle l' = 0 \<and> \<not> closed l' \<and> addr l' = addr l)
         \<and> (\<exists>more. calls = newInstance (addr l) # more)
         \<and> (\<forall>c. r = Inr c \<longrightarrow> CreateNamedPipe os = Inr (PipeConn.handle c))"
proof (cases "CreateNamedPipe os")
  case (Inl e)
  with assms show ?thesis
    by (auto simp: AcceptPipe_later)
next
  case (Inr h)
  with assms have "AcceptPipe_connect os (\<lambda>l. l) l h [newInstance (addr l)] = Some (r, lp', calls)"
    by (simp add: AcceptPipe_later)
  from AcceptPipe_connect_alone[OF this] assms(1,2) Inr show ?thesis
    by auto
qed

text \<open>
  Once the stored handle is cleared it stays so, and the listener stays open: by
  induction on the run, every call of it starts by creating an instance.
\<close>

lemma AcceptPipe_run_later:
  assumes "AcceptPipe_run oss (Some l) = Some rest"
    and "handle l = 0" and "\<not> closed l" and "addr l \<noteq> []" and "CHR 0x00 \<notin> set (addr l)"
  shows "\<forall>(r, lp', calls) \<in> set rest.
           (\<exists>l'. lp' = Some l' \<and> handle l' = 0) \<and> (\<exists>more. calls = newInstance (addr l) # more)"
  using assms
proof (induction oss arbitrary: l rest)
  case Nil
  then show ?case by simp
next
  case (Cons os oss)
  from Cons.prems(1) obtain r lp' calls rest' where
    a: "AcceptPipe os (\<lambda>l. l) (Some l) = Some (r, lp', calls)" and
    b: "AcceptPipe_run oss lp' = Some rest'" and
    c: "rest = (r, lp', calls) # rest'"
    by (auto split: option.splits prod.splits)
  from AcceptPipe_later_step[OF Cons.prems(2-5) a] obtain l' where
    l': "lp' = Some l'" "handle l' = 0" "\<not> closed l'" "addr l' = addr l"
    and calls: "\<exists>more. calls = newInstance (addr l) # more"
    by blast
  from Cons.IH[of l' rest'] b l' Cons.prems(4,5)
  have "\<forall>(r, lp', calls) \<in> set rest'.
           (\<exists>l'. lp' = Some l' \<and> handle l' = 0) \<and> (\<exists>more. calls = newInstance (addr l) # more)"
    by simp
  with c l' calls show ?case by simp
qed

text \<open>
  An \<^verbatim>\<open>AcceptPipe\<close> whose connect was pending never returns \<open>ErrClosed\<close>, whatever the
  platform answers and whatever happens to the listener meanwhile.
\<close>

lemma AcceptPipe_connect_pending_never_ErrClosed:
  assumes "ConnectNamedPipe os = Some ERROR_IO_PENDING \<or> ConnectNamedPipe os = Some ERROR_IO_INCOMPLETE"
  shows "AcceptPipe_connect os during l h calls \<noteq> Some (Inl (PipeErr ErrClosed), lp', calls')"
proof -
  have w: "snd (waitForCompletion os h ov) \<noteq> Some (Errno ERROR_OPERATION_ABORTED)"
          "snd (waitForCompletion os h ov) \<noteq> Some (PipeErr ErrClosed)" for ov
    by (rule waitForCompletion_not_Errno, rule waitForCompletion_not_PipeErr)
  have n: "newOverlapped os \<noteq> Inl (PipeErr ErrClosed)"
    by (simp add: newOverlapped_def split: sum.splits)
  show ?thesis
    using assms w n
    by (auto simp: AcceptPipe_connect_def AcceptPipe_return_def Let_def errno_defs
          split: sum.splits option.splits if_splits)
qed

lemma AcceptPipe_pending_never_ErrClosed:
  assumes "ConnectNamedPipe os = Some ERROR_IO_PENDING \<or> ConnectNamedPipe os = Some ERROR_IO_INCOMPLETE"
  shows "AcceptPipe os during lp \<noteq> Some (Inl (PipeErr ErrClosed), lp', calls')"
  using AcceptPipe_connect_pending_never_ErrClosed[OF assms]
  by (auto simp: AcceptPipe_def Let_def split: option.splits sum.splits if_splits)

text \<open>\<^verbatim>\<open>AcceptPipe\<close> returns whenever the wait does.\<close>

lemma AcceptPipe_returns:
  "completes os \<Longrightarrow> AcceptPipe os during lp \<noteq> None"
  by (simp add: AcceptPipe_def AcceptPipe_connect_def Let_def split: option.splits sum.splits)

subsection \<open>Evaluations on the concrete inputs\<close>

lemma asciiToLower_pipe: "asciiToLower ''pipe'' = ''pipe''"
  by code_simp

lemma Split_srvsvc: "Split (localPipe ''srvsvc'') bs = [[], [], ''.'', ''pipe'', ''srvsvc'']"
  by code_simp

lemma UTF16_srvsvc: "UTF16PtrFromString (localPipe ''srvsvc'') = Inr (localPipe ''srvsvc'')"
  by (simp add: UTF16PtrFromString_def localPipe_def bs_def)

lemma localPipe_srvsvc_nonempty: "localPipe ''srvsvc'' \<noteq> []"
  by (simp add: localPipe_def)

lemma Validate_srvsvc: "ValidatePipeAddress noIP asciiToLower (localPipe ''srvsvc'') = None"
  by (simp add: ValidatePipeAddress_def Split_srvsvc asciiToLower_pipe)

lemma NewPipeListener_srvsvc:
  "NewPipeListener noIP asciiToLower os_ok (localPipe ''srvsvc'') 3 0 255 512 512 0
     = (Inr listener0, [CallCreateNamedPipe (localPipe ''srvsvc'') 3 0 255 512 512 0])"
  by (simp add: NewPipeListener_def Validate_srvsvc UTF16_srvsvc os_ok_def listener0_def)

lemma AcceptPipe_srvsvc_first:
  "AcceptPipe os_ok (\<lambda>l. l) (Some listener0)
     = Some (Inr \<lparr>PipeConn.handle = 5, PipeConn.addr = localPipe ''srvsvc'', readDeadline = None, writeDeadline = None\<rparr>,
             Some (listener0\<lparr>handle := 0\<rparr>), [CallConnectNamedPipe 5])"
  by (simp add: AcceptPipe_def AcceptPipe_connect_def newOverlapped_def localPipe_srvsvc_nonempty
        os_ok_def listener0_def Let_def)

lemma AcceptPipe_srvsvc_second:
  "AcceptPipe (os_ok\<lparr>CreateNamedPipe := Inr 6, ConnectNamedPipe := Some ERROR_PIPE_CONNECTED\<rparr>) (\<lambda>l. l)
       (Some (listener0\<lparr>handle := 0\<rparr>))
     = Some (Inr \<lparr>PipeConn.handle = 6, PipeConn.addr = localPipe ''srvsvc'', readDeadline = None, writeDeadline = None\<rparr>,
             Some (listener0\<lparr>handle := 0\<rparr>),
             [newInstance (localPipe ''srvsvc''), CallConnectNamedPipe 6])"
  by (simp add: AcceptPipe_def AcceptPipe_connect_def newOverlapped_def localPipe_srvsvc_nonempty UTF16_srvsvc
        os_ok_def listener0_def Let_def newInstance_def)

lemma AcceptPipe_run_srvsvc:
  "AcceptPipe_run [os_ok, os_ok\<lparr>CreateNamedPipe := Inr 6, ConnectNamedPipe := Some ERROR_PIPE_CONNECTED\<rparr>]
       (Some listener0)
     = Some [(Inr \<lparr>PipeConn.handle = 5, PipeConn.addr = localPipe ''srvsvc'', readDeadline = None, writeDeadline = None\<rparr>,
              Some (listener0\<lparr>handle := 0\<rparr>), [CallConnectNamedPipe 5]),
             (Inr \<lparr>PipeConn.handle = 6, PipeConn.addr = localPipe ''srvsvc'', readDeadline = None, writeDeadline = None\<rparr>,
              Some (listener0\<lparr>handle := 0\<rparr>),
              [newInstance (localPipe ''srvsvc''), CallConnectNamedPipe 6])]"
  by (simp add: AcceptPipe_srvsvc_first AcceptPipe_srvsvc_second)

section \<open>The claims\<close>

text \<open>
  C1. A \<^verbatim>\<open>Read\<close> or \<^verbatim>\<open>Write\<close> whose operation ends with the broken-pipe status returns
  \<^verbatim>\<open>io.EOF\<close>, when the status comes at issue time and when it comes after a pending wait.
  The code does so only at issue time (third equation). After a pending wait
  \<^verbatim>\<open>waitForCompletion\<close> has wrapped the status of \<^verbatim>\<open>GetOverlappedResult\<close> in a new error, the
  comparison with \<^verbatim>\<open>ERROR_BROKEN_PIPE\<close> in \<^verbatim>\<open>completeRequest\<close> fails, and the wrapped error
  is returned: the evaluation below, for a read and for a write that are pending at issue
  time and end with the broken-pipe status.
\<close>

theorem Read_pending_broken_pipe_is_not_EOF:
  "Read (os_ok\<lparr>ReadFile := (0, Some ERROR_IO_PENDING), GetOverlappedResult := (0, Some ERROR_BROKEN_PIPE)\<rparr>) conn0
     = Some (0, Some (Errorf ''npipe.waitForCompletion(): there was an error calling WINAPI GetOverlappedResult: %s''
                        [E (Errno ERROR_BROKEN_PIPE)]))
   \<and> Write (os_ok\<lparr>WriteFile := (0, Some ERROR_IO_PENDING), GetOverlappedResult := (0, Some ERROR_BROKEN_PIPE)\<rparr>) conn0
     = Some (0, Some (Errorf ''npipe.waitForCompletion(): there was an error calling WINAPI GetOverlappedResult: %s''
                        [E (Errno ERROR_BROKEN_PIPE)]))
   \<and> Read (os_ok\<lparr>ReadFile := (0, Some ERROR_BROKEN_PIPE)\<rparr>) conn0 = Some (0, Some EOF)"
  by (simp add: Read_def Write_def newOverlapped_def completeRequest_def select_done_timer_def
        waitForCompletion_def os_ok_def conn0_def errno_defs)

text \<open>
  C2. An \<^verbatim>\<open>AcceptPipe\<close> whose pending connect is cancelled by a concurrent \<^verbatim>\<open>Close\<close> returns
  \<open>ErrClosed\<close>. The code does not: the connect is pending, \<^verbatim>\<open>Close\<close> runs on the listener
  while the mutex is released, the wait ends with \<^verbatim>\<open>ERROR_OPERATION_ABORTED\<close>, which
  \<^verbatim>\<open>waitForCompletion\<close> wraps in a new error, so the comparison with
  \<^verbatim>\<open>ERROR_OPERATION_ABORTED\<close> fails and the wrapped error is returned.
\<close>

theorem AcceptPipe_cancelled_by_Close_is_not_ErrClosed:
  "AcceptPipe (os_ok\<lparr>ConnectNamedPipe := Some ERROR_IO_PENDING,
                      GetOverlappedResult := (0, Some ERROR_OPERATION_ABORTED)\<rparr>)
      (\<lambda>l. snd (Close os_ok l)) (Some listener0)
     = Some (Inl (Errorf ''npipe.waitForCompletion(): there was an error calling WINAPI GetOverlappedResult: %s''
                    [E (Errno ERROR_OPERATION_ABORTED)]),
             Some (listener0\<lparr>handle := 0, closed := True\<rparr>),
             [CallConnectNamedPipe 5])"
  by (simp add: AcceptPipe_def AcceptPipe_connect_def AcceptPipe_return_def newOverlapped_def Close_def
        Close_accept_def waitForCompletion_def os_ok_def listener0_def errno_defs localPipe_def Let_def)

text \<open>
  C3. \<^verbatim>\<open>Dial\<close> sleeps 100ms and retries when an attempt fails because the pipe is not yet
  created or all its instances are busy. The code does not: \<^verbatim>\<open>waitNamedPipe\<close> wraps the
  status in a new error, \<^verbatim>\<open>isPipeNotReady\<close> is false of it, and \<^verbatim>\<open>Dial\<close> returns the error
  of the first attempt without sleeping, although the second attempt would have
  connected.
\<close>

theorem Dial_not_ready_is_not_retried:
  "Dial (\<lambda>i. if i = 0 then os_ok\<lparr>WaitNamedPipeW := (0, ERROR_FILE_NOT_FOUND)\<rparr> else os_ok) (localPipe ''srvsvc'')
     = Some (Inl (Errorf ''npipe.Dial(): %s''
                   [E (Errorf ''npipe.waitNamedPipe(): there was an error calling the Windows API function WaitNamedPipeW with return code %d: %s''
                         [D 0, E (Errno ERROR_FILE_NOT_FOUND)])]), [])
   \<and> Dial (\<lambda>i. if i = 0 then os_ok\<lparr>WaitNamedPipeW := (0, ERROR_PIPE_BUSY)\<rparr> else os_ok) (localPipe ''srvsvc'')
     = Some (Inl (Errorf ''npipe.Dial(): %s''
                   [E (Errorf ''npipe.waitNamedPipe(): there was an error calling the Windows API function WaitNamedPipeW with return code %d: %s''
                         [D 0, E (Errno ERROR_PIPE_BUSY)])]), [])"
  by (simp add: Dial_one_attempt dial_def waitNamedPipe_def UTF16PtrFromString_def localPipe_def bs_def
        os_ok_def errno_defs)

text \<open>
  C4. A \<^verbatim>\<open>DialTimeout\<close> that never connects returns a timeout-flagged error, when the
  platform's wait for the pipe times out and when the deadline passes. The code does not
  when the platform's wait times out (\<^verbatim>\<open>ERROR_SEM_TIMEOUT\<close>), nor when the pipe does not
  exist (\<^verbatim>\<open>ERROR_FILE_NOT_FOUND\<close>): with 200ms allowed and the clock at 1ns, it returns the
  wrapped status, which is no \<open>PipeError\<close>, after a single attempt and no sleep.
\<close>

theorem DialTimeout_platform_timeout_is_not_flagged:
  "DialTimeout (\<lambda>i. os_ok\<lparr>WaitNamedPipeW := (0, ERROR_SEM_TIMEOUT)\<rparr>) (\<lambda>k. int k) (localPipe ''srvsvc'')
       (200 * Millisecond)
     = Some (Inl (Errorf ''npipe.waitNamedPipe(): there was an error calling the Windows API function WaitNamedPipeW with return code %d: %s''
                   [D 0, E (Errno ERROR_SEM_TIMEOUT)]), [])
   \<and> DialTimeout (\<lambda>i. os_ok\<lparr>WaitNamedPipeW := (0, ERROR_FILE_NOT_FOUND)\<rparr>) (\<lambda>k. int k) (localPipe ''srvsvc'')
       (200 * Millisecond)
     = Some (Inl (Errorf ''npipe.waitNamedPipe(): there was an error calling the Windows API function WaitNamedPipeW with return code %d: %s''
                   [D 0, E (Errno ERROR_FILE_NOT_FOUND)]), [])"
  by (simp add: DialTimeout_one_attempt dial_def waitNamedPipe_def UTF16PtrFromString_def localPipe_def bs_def
        os_ok_def errno_defs Millisecond_def)

text \<open>
  C5, as amended. A read deadline that is already past when \<^verbatim>\<open>Read\<close> starts to wait arms no
  timer: the \<^verbatim>\<open>Read\<close> behaves as with no deadline (it returns what the pending operation
  returns once that completes, and blocks until then) and never returns a timeout-flagged
  error. With no deadline set, \<^verbatim>\<open>Read\<close> never returns a timeout-flagged error. A deadline
  still ahead gives the timeout-flagged error \<open>timeout (addr c)\<close> when the operation is
  pending and the timer is received from first or the operation never completes.
\<close>

theorem Read_deadline_amended:
  "(d \<le> Now os \<longrightarrow>
      Read os (snd (SetReadDeadline c d)) = Read os (c\<lparr>readDeadline := None\<rparr>)
      \<and> \<not> returnsTimeout (Read os (snd (SetReadDeadline c d))))
   \<and> (readDeadline c = None \<longrightarrow> \<not> returnsTimeout (Read os c))
   \<and> (Now os < d \<and> CreateEvent os = Inr ev
        \<and> (ReadFile os = (n, Some ERROR_IO_PENDING) \<or> ReadFile os = (n, Some ERROR_IO_INCOMPLETE))
        \<and> (timer_first os \<or> \<not> completes os) \<longrightarrow>
        Read os (snd (SetReadDeadline c d)) = Some (0, Some (PipeErr (timeout (PipeConn.addr c))))
        \<and> returnsTimeout (Read os (snd (SetReadDeadline c d))))"
proof -
  have unset: "\<not> returnsTimeout (Read os c')" if "readDeadline c' = None" for c'
    using Read_no_deadline_not_PipeErr[OF that, of os]
    by (auto simp: returnsTimeout_def timeoutFlagged_def split: option.splits prod.splits error.splits)
  have past: "Read os (snd (SetReadDeadline c d)) = Read os (c\<lparr>readDeadline := None\<rparr>)" if "d \<le> Now os"
  proof -
    from that have "\<And>data ov. completeRequest os (c\<lparr>readDeadline := Some d\<rparr>) data (Some d) ov
                 = completeRequest os (c\<lparr>readDeadline := None\<rparr>) data None ov"
      using completeRequest_conn_cong[of "c\<lparr>readDeadline := Some d\<rparr>" "c\<lparr>readDeadline := None\<rparr>" os]
      by (simp add: completeRequest_past_deadline)
    then show ?thesis
      by (simp add: Read_def SetReadDeadline_def split: sum.splits prod.splits)
  qed
  have future: "Read os (snd (SetReadDeadline c d)) = Some (0, Some (PipeErr (timeout (PipeConn.addr c))))"
    if "Now os < d \<and> CreateEvent os = Inr ev
        \<and> (ReadFile os = (n, Some ERROR_IO_PENDING) \<or> ReadFile os = (n, Some ERROR_IO_INCOMPLETE))
        \<and> (timer_first os \<or> \<not> completes os)"
    using that
    by (auto simp: Read_def SetReadDeadline_def newOverlapped_def completeRequest_def select_done_timer_def
          Let_def errno_defs)
  have flagged: "returnsTimeout (Some (0, Some (PipeErr (timeout (PipeConn.addr c)))))"
    by (simp add: returnsTimeout_def timeoutFlagged_def Timeout_def timeout_def)
  show ?thesis
    using unset[of c] unset[of "c\<lparr>readDeadline := None\<rparr>"] past future flagged by simp
qed

text \<open>
  C5 as stated fails: with the deadline at 0 and the clock at 5, a pending read returns the
  3 bytes of the operation once it completes, without a timeout, and one whose operation
  never completes blocks for ever (\<open>None\<close>).
\<close>

theorem Read_past_deadline_counterexample:
  "(0::int) < 5
   \<and> Read (os_ok\<lparr>Now := 5, ReadFile := (0, Some ERROR_IO_PENDING), GetOverlappedResult := (3, None)\<rparr>)
        (snd (SetReadDeadline conn0 0)) = Some (3, None)
   \<and> \<not> returnsTimeout
         (Read (os_ok\<lparr>Now := 5, ReadFile := (0, Some ERROR_IO_PENDING), GetOverlappedResult := (3, None)\<rparr>)
            (snd (SetReadDeadline conn0 0)))
   \<and> Read (os_ok\<lparr>Now := 5, ReadFile := (0, Some ERROR_IO_PENDING), completes := False\<rparr>)
        (snd (SetReadDeadline conn0 0)) = None"
  by (simp add: Read_def SetReadDeadline_def newOverlapped_def completeRequest_def select_done_timer_def
        waitForCompletion_def returnsTimeout_def timeoutFlagged_def os_ok_def conn0_def errno_defs Let_def)

theorem Read_deadline_amended_witness:
  "(0::int) \<le> Now (os_ok\<lparr>Now := 5, ReadFile := (0, Some ERROR_IO_PENDING), completes := False\<rparr>)
   \<and> Read (os_ok\<lparr>Now := 5, ReadFile := (0, Some ERROR_IO_PENDING), completes := False\<rparr>)
        (snd (SetReadDeadline conn0 0))
       = Read (os_ok\<lparr>Now := 5, ReadFile := (0, Some ERROR_IO_PENDING), completes := False\<rparr>)
           (conn0\<lparr>readDeadline := None\<rparr>)
   \<and> \<not> returnsTimeout (Read (os_ok\<lparr>Now := 5, ReadFile := (0, Some ERROR_IO_PENDING), completes := False\<rparr>)
                          (snd (SetReadDeadline conn0 0)))
   \<and> readDeadline conn0 = None
   \<and> \<not> returnsTimeout (Read (os_ok\<lparr>ReadFile := (0, Some ERROR_IO_PENDING)\<rparr>) conn0)
   \<and> Now (os_ok\<lparr>ReadFile := (0, Some ERROR_IO_PENDING), completes := False\<rparr>) < 10
   \<and> CreateEvent (os_ok\<lparr>ReadFile := (0, Some ERROR_IO_PENDING), completes := False\<rparr>) = Inr 9
   \<and> ReadFile (os_ok\<lparr>ReadFile := (0, Some ERROR_IO_PENDING), completes := False\<rparr>) = (0, Some ERROR_IO_PENDING)
   \<and> Read (os_ok\<lparr>ReadFile := (0, Some ERROR_IO_PENDING), completes := False\<rparr>) (snd (SetReadDeadline conn0 10))
       = Some (0, Some (PipeErr (timeout (PipeConn.addr conn0))))
   \<and> returnsTimeout (Read (os_ok\<lparr>ReadFile := (0, Some ERROR_IO_PENDING), completes := False\<rparr>)
                       (snd (SetReadDeadline conn0 10)))"
proof -
  let ?past = "os_ok\<lparr>Now := 5, ReadFile := (0, Some ERROR_IO_PENDING), completes := False\<rparr>"
  let ?fut = "os_ok\<lparr>ReadFile := (0, Some ERROR_IO_PENDING), completes := False\<rparr>"
  have p: "(0::int) \<le> Now ?past" by (simp add: os_ok_def)
  have u: "readDeadline conn0 = None" by (simp add: conn0_def)
  have f: "Now ?fut < 10 \<and> CreateEvent ?fut = Inr 9
           \<and> (ReadFile ?fut = (0, Some ERROR_IO_PENDING) \<or> ReadFile ?fut = (0, Some ERROR_IO_INCOMPLETE))
           \<and> (timer_first ?fut \<or> \<not> completes ?fut)"
    by (simp add: os_ok_def)
  have g: "ReadFile ?fut = (0, Some ERROR_IO_PENDING)" by (simp add: os_ok_def)
  have 1: "Read ?past (snd (SetReadDeadline conn0 0)) = Read ?past (conn0\<lparr>readDeadline := None\<rparr>)
           \<and> \<not> returnsTimeout (Read ?past (snd (SetReadDeadline conn0 0)))"
    using Read_deadline_amended[where d = 0 and os = ?past and c = conn0] p by blast
  have 2: "\<not> returnsTimeout (Read (os_ok\<lparr>ReadFile := (0, Some ERROR_IO_PENDING)\<rparr>) conn0)"
    using Read_deadline_amended[where c = conn0 and os = "os_ok\<lparr>ReadFile := (0, Some ERROR_IO_PENDING)\<rparr>"] u
    by blast
  have 3: "Read ?fut (snd (SetReadDeadline conn0 10)) = Some (0, Some (PipeErr (timeout (PipeConn.addr conn0))))
           \<and> returnsTimeout (Read ?fut (snd (SetReadDeadline conn0 10)))"
    using Read_deadline_amended[where d = 10 and os = ?fut and c = conn0 and ev = 9 and n = 0] f by blast
  show ?thesis using p u f g 1 2 3 by blast
qed

text \<open>
  C6. For a malformed address \<^verbatim>\<open>Dial\<close> and \<^verbatim>\<open>DialTimeout\<close> return the bad-address error.
  The code does not: \<^verbatim>\<open>waitNamedPipe\<close> wraps \<^verbatim>\<open>ERROR_BAD_PATHNAME\<close> in a new error, the
  comparison in \<^verbatim>\<open>dial\<close> fails, and \<open>badAddr\<close> is never returned. For the address
  \<^verbatim>\<open>srvsvc\<close>, which \<^verbatim>\<open>ValidatePipeAddress\<close> rejects, both return the wrapped status, which is
  no \<open>PipeError\<close> (at once and without retrying, as the claim says).
\<close>

theorem Dial_malformed_address_is_not_badAddr:
  "Dial (\<lambda>i. os_ok\<lparr>WaitNamedPipeW := (0, ERROR_BAD_PATHNAME)\<rparr>) ''srvsvc''
     = Some (Inl (Errorf ''npipe.Dial(): %s''
                   [E (Errorf ''npipe.waitNamedPipe(): there was an error calling the Windows API function WaitNamedPipeW with return code %d: %s''
                         [D 0, E (Errno ERROR_BAD_PATHNAME)])]), [])
   \<and> DialTimeout (\<lambda>i. os_ok\<lparr>WaitNamedPipeW := (0, ERROR_BAD_PATHNAME)\<rparr>) (\<lambda>k. int k) ''srvsvc'' (200 * Millisecond)
     = Some (Inl (Errorf ''npipe.waitNamedPipe(): there was an error calling the Windows API function WaitNamedPipeW with return code %d: %s''
                   [D 0, E (Errno ERROR_BAD_PATHNAME)]), [])
   \<and> ValidatePipeAddress noIP asciiToLower ''srvsvc'' \<noteq> None"
  by (simp add: Dial_one_attempt DialTimeout_one_attempt dial_def waitNamedPipe_def UTF16PtrFromString_def
        os_ok_def errno_defs Millisecond_def ValidatePipeAddress_def bs_def)

text \<open>
  C7, as amended. When the issued operation completed at issue time (its status is
  neither pending nor incomplete), \<^verbatim>\<open>completeRequest\<close> returns the byte count it was given
  and the status it was given, except that the broken-pipe status is returned as
  \<^verbatim>\<open>io.EOF\<close>, and it does not wait: the result does not depend on the platform nor on the
  deadline, and it is there even on a platform where a wait would never return. The same
  holds of a \<^verbatim>\<open>Read\<close> and of a \<^verbatim>\<open>Write\<close> whose event was created.
\<close>

theorem completeRequest_synchronous_no_wait:
  assumes "e \<noteq> Some (Errno ERROR_IO_INCOMPLETE)" and "e \<noteq> Some (Errno ERROR_IO_PENDING)"
  shows "completeRequest os c (iodata n e) deadline overlapped
           = Some (uint n, if e = Some (Errno ERROR_BROKEN_PIPE) then Some EOF else e)
       \<and> (CreateEvent os = Inr ev \<and> ReadFile os = (n, st) \<and> e = map_option Errno st \<longrightarrow>
            Read os c = Some (uint n, if e = Some (Errno ERROR_BROKEN_PIPE) then Some EOF else e))
       \<and> (CreateEvent os = Inr ev \<and> WriteFile os = (n, st) \<and> e = map_option Errno st \<longrightarrow>
            Write os c = Some (uint n, if e = Some (Errno ERROR_BROKEN_PIPE) then Some EOF else e))"
proof -
  have cr: "\<And>dl ov. completeRequest os c (iodata n e) dl ov
           = Some (uint n, if e = Some (Errno ERROR_BROKEN_PIPE) then Some EOF else e)"
    by (rule completeRequest_not_pending[OF assms])
  show ?thesis
  proof (intro conjI impI)
    show "completeRequest os c (iodata n e) deadline overlapped
            = Some (uint n, if e = Some (Errno ERROR_BROKEN_PIPE) then Some EOF else e)"
      by (rule cr)
  next
    assume "CreateEvent os = Inr ev \<and> ReadFile os = (n, st) \<and> e = map_option Errno st"
    then show "Read os c = Some (uint n, if e = Some (Errno ERROR_BROKEN_PIPE) then Some EOF else e)"
      using cr by (simp add: Read_def newOverlapped_def)
  next
    assume "CreateEvent os = Inr ev \<and> WriteFile os = (n, st) \<and> e = map_option Errno st"
    then show "Write os c = Some (uint n, if e = Some (Errno ERROR_BROKEN_PIPE) then Some EOF else e)"
      using cr by (simp add: Write_def newOverlapped_def)
  qed
qed

text \<open>
  C7 as stated fails for one status: the broken-pipe status is neither pending nor
  incomplete, and what is returned for it is \<^verbatim>\<open>io.EOF\<close>, not the status.
\<close>

theorem completeRequest_synchronous_broken_pipe_counterexample:
  "Some (Errno ERROR_BROKEN_PIPE) \<noteq> Some (Errno ERROR_IO_INCOMPLETE)
   \<and> Some (Errno ERROR_BROKEN_PIPE) \<noteq> Some (Errno ERROR_IO_PENDING)
   \<and> completeRequest os_ok conn0 (iodata 0 (Some (Errno ERROR_BROKEN_PIPE))) None \<lparr>HEvent = 9\<rparr>
       = Some (0, Some EOF)
   \<and> completeRequest os_ok conn0 (iodata 0 (Some (Errno ERROR_BROKEN_PIPE))) None \<lparr>HEvent = 9\<rparr>
       \<noteq> Some (0, Some (Errno ERROR_BROKEN_PIPE))"
  by (simp add: completeRequest_def errno_defs)

theorem completeRequest_synchronous_no_wait_witness:
  "Some (Errno 5) \<noteq> Some (Errno ERROR_IO_INCOMPLETE) \<and> Some (Errno 5) \<noteq> Some (Errno ERROR_IO_PENDING)
   \<and> completeRequest (os_ok\<lparr>completes := False\<rparr>) conn0 (iodata 3 (Some (Errno 5))) (Some 10) \<lparr>HEvent = 9\<rparr>
       = Some (3, Some (Errno 5))
   \<and> Read (os_ok\<lparr>ReadFile := (3, Some 5), completes := False\<rparr>) conn0 = Some (3, Some (Errno 5))
   \<and> Write (os_ok\<lparr>WriteFile := (3, Some 5), completes := False\<rparr>) conn0 = Some (3, Some (Errno 5))"
proof -
  let ?e = "Some (Errno 5)"
  let ?osr = "os_ok\<lparr>ReadFile := (3, Some 5), completes := False\<rparr>"
  let ?osw = "os_ok\<lparr>WriteFile := (3, Some 5), completes := False\<rparr>"
  have h1: "?e \<noteq> Some (Errno ERROR_IO_INCOMPLETE)" by (simp add: errno_defs)
  have h2: "?e \<noteq> Some (Errno ERROR_IO_PENDING)" by (simp add: errno_defs)
  have res: "(uint (3 :: 32 word), if ?e = Some (Errno ERROR_BROKEN_PIPE) then Some EOF else ?e) = (3, ?e)"
    by (simp add: errno_defs)
  have r: "CreateEvent ?osr = Inr 9 \<and> ReadFile ?osr = (3, Some 5) \<and> ?e = map_option Errno (Some 5)"
    by (simp add: os_ok_def)
  have w: "CreateEvent ?osw = Inr 9 \<and> WriteFile ?osw = (3, Some 5) \<and> ?e = map_option Errno (Some 5)"
    by (simp add: os_ok_def)
  have a: "completeRequest (os_ok\<lparr>completes := False\<rparr>) conn0 (iodata 3 ?e) (Some 10) \<lparr>HEvent = 9\<rparr>
             = Some (uint (3 :: 32 word), if ?e = Some (Errno ERROR_BROKEN_PIPE) then Some EOF else ?e)"
    using completeRequest_synchronous_no_wait[OF h1 h2, where os = "os_ok\<lparr>completes := False\<rparr>" and c = conn0
        and n = 3 and deadline = "Some 10" and overlapped = "\<lparr>HEvent = 9\<rparr>"]
    by blast
  have b: "Read ?osr conn0 = Some (uint (3 :: 32 word), if ?e = Some (Errno ERROR_BROKEN_PIPE) then Some EOF else ?e)"
    using completeRequest_synchronous_no_wait[OF h1 h2, where os = ?osr and ev = 9 and n = 3 and c = conn0
        and st = "Some 5"] r
    by blast
  have c: "Write ?osw conn0 = Some (uint (3 :: 32 word), if ?e = Some (Errno ERROR_BROKEN_PIPE) then Some EOF else ?e)"
    using completeRequest_synchronous_no_wait[OF h1 h2, where os = ?osw and ev = 9 and n = 3 and c = conn0
        and st = "Some 5"] w
    by blast
  show ?thesis
    unfolding a b c res using h1 h2 by blast
qed

text \<open>
  C8. \<^verbatim>\<open>ValidatePipeAddress\<close> accepts every address \<^verbatim>\<open>\\.\pipe\\<close> followed by a name (given that
  \<^verbatim>\<open>strings.ToLower\<close> leaves \<^verbatim>\<open>pipe\<close> as it is), and rejects every address that has fewer
  than 5 segments between backslashes, or whose segment 3 is not \<^verbatim>\<open>pipe\<close> once lowered,
  or whose segment 2 is neither \<^verbatim>\<open>.\<close> nor parsed by \<^verbatim>\<open>net.ParseIP\<close>.
\<close>

theorem ValidatePipeAddress_accepts_local_rejects_malformed:
  "(ToLower ''pipe'' = ''pipe'' \<longrightarrow>
      ValidatePipeAddress ParseIP ToLower (localPipe name) = None)
   \<and> (length (Split address bs) < 5 \<longrightarrow> ValidatePipeAddress ParseIP ToLower address \<noteq> None)
   \<and> (5 \<le> length (Split address bs) \<and> ToLower (Split address bs ! 3) \<noteq> ''pipe'' \<longrightarrow>
        ValidatePipeAddress ParseIP ToLower address \<noteq> None)
   \<and> (5 \<le> length (Split address bs) \<and> Split address bs ! 2 \<noteq> ''.''
        \<and> ParseIP (Split address bs ! 2) = None \<longrightarrow>
        ValidatePipeAddress ParseIP ToLower address \<noteq> None)"
proof (intro conjI impI)
  assume "ToLower ''pipe'' = ''pipe''"
  moreover have "\<not> length (Split (localPipe name) bs) < 5"
    using Split_localPipe_length[of name] by simp
  moreover have "Split (localPipe name) bs ! 2 = ''.''" "Split (localPipe name) bs ! 3 = ''pipe''"
    by (simp_all add: Split_localPipe)
  ultimately show "ValidatePipeAddress ParseIP ToLower (localPipe name) = None"
    by (simp add: ValidatePipeAddress_def Let_def)
next
  assume "length (Split address bs) < 5"
  then show "ValidatePipeAddress ParseIP ToLower address \<noteq> None"
    by (simp add: ValidatePipeAddress_def Let_def)
next
  assume "5 \<le> length (Split address bs) \<and> ToLower (Split address bs ! 3) \<noteq> ''pipe''"
  then show "ValidatePipeAddress ParseIP ToLower address \<noteq> None"
    by (simp add: ValidatePipeAddress_def Let_def)
next
  assume "5 \<le> length (Split address bs) \<and> Split address bs ! 2 \<noteq> ''.''
            \<and> ParseIP (Split address bs ! 2) = None"
  then show "ValidatePipeAddress ParseIP ToLower address \<noteq> None"
    by (simp add: ValidatePipeAddress_def Let_def)
qed

theorem ValidatePipeAddress_accepts_local_rejects_malformed_witness:
  "asciiToLower ''pipe'' = ''pipe''
   \<and> ValidatePipeAddress noIP asciiToLower (localPipe ''srvsvc'') = None
   \<and> length (Split shortAddr bs) < 5
   \<and> ValidatePipeAddress noIP asciiToLower shortAddr \<noteq> None
   \<and> 5 \<le> length (Split mailslotAddr bs)
   \<and> asciiToLower (Split mailslotAddr bs ! 3) \<noteq> ''pipe''
   \<and> ValidatePipeAddress noIP asciiToLower mailslotAddr \<noteq> None
   \<and> 5 \<le> length (Split serverAddr bs)
   \<and> Split serverAddr bs ! 2 \<noteq> ''.''
   \<and> noIP (Split serverAddr bs ! 2) = None
   \<and> ValidatePipeAddress noIP asciiToLower serverAddr \<noteq> None"
proof -
  have s1: "Split shortAddr bs = [[], [], ''.'', ''pipe'']" by code_simp
  have s2: "Split mailslotAddr bs = [[], [], ''.'', ''mailslot'', ''srvsvc'']" by code_simp
  have s3: "Split serverAddr bs = [[], [], ''server'', ''pipe'', ''srvsvc'']" by code_simp
  have m: "asciiToLower ''mailslot'' \<noteq> ''pipe''" by code_simp
  have h0: "asciiToLower ''pipe'' = ''pipe''" by (rule asciiToLower_pipe)
  have h1: "length (Split shortAddr bs) < 5" by (simp add: s1)
  have h2: "5 \<le> length (Split mailslotAddr bs) \<and> asciiToLower (Split mailslotAddr bs ! 3) \<noteq> ''pipe''"
    by (simp add: s2 m)
  have h3: "5 \<le> length (Split serverAddr bs) \<and> Split serverAddr bs ! 2 \<noteq> ''.''
            \<and> noIP (Split serverAddr bs ! 2) = None"
    by (simp add: s3 noIP_def)
  have c0: "ValidatePipeAddress noIP asciiToLower (localPipe ''srvsvc'') = None"
    using ValidatePipeAddress_accepts_local_rejects_malformed[where ToLower = asciiToLower and ParseIP = noIP
        and name = "''srvsvc''"] h0
    by blast
  have c1: "ValidatePipeAddress noIP asciiToLower shortAddr \<noteq> None"
    using ValidatePipeAddress_accepts_local_rejects_malformed[where ToLower = asciiToLower and ParseIP = noIP
        and address = shortAddr] h1
    by blast
  have c2: "ValidatePipeAddress noIP asciiToLower mailslotAddr \<noteq> None"
    using ValidatePipeAddress_accepts_local_rejects_malformed[where ToLower = asciiToLower and ParseIP = noIP
        and address = mailslotAddr] h2
    by blast
  have c3: "ValidatePipeAddress noIP asciiToLower serverAddr \<noteq> None"
    using ValidatePipeAddress_accepts_local_rejects_malformed[where ToLower = asciiToLower and ParseIP = noIP
        and address = serverAddr] h3
    by blast
  show ?thesis using h0 h1 h2 h3 c0 c1 c2 c3 by blast
qed

text \<open>
  C9. On a listener that \<^verbatim>\<open>NewPipeListener\<close> returned (its handle, that of the instance
  created at construction, is not 0, as no handle of the platform is), in a run of
  successive \<^verbatim>\<open>AcceptPipe\<close> calls that return: the first call leaves the listener's stored
  handle cleared, creates no instance (its only call, if any, connects the instance
  created at construction) and a connection it returns is on that instance; every later
  call starts by creating a new instance under the listener's name, and leaves the stored
  handle cleared.
\<close>

theorem AcceptPipe_first_takes_handle_later_create:
  assumes "NewPipeListener ParseIP ToLower os0 name openMode pipeMode maxInstances outBuffer inBuffer tmo
             = (Inr l0, calls0)"
    and "handle l0 \<noteq> 0"
    and "AcceptPipe_run (os # oss) (Some l0) = Some ((r, lp, calls) # rest)"
  shows "CreateNamedPipe os0 = Inr (handle l0)
         \<and> calls0 = [CallCreateNamedPipe name openMode pipeMode maxInstances outBuffer inBuffer tmo]
         \<and> (\<exists>l. lp = Some l \<and> handle l = 0)
         \<and> (calls = [] \<or> calls = [CallConnectNamedPipe (handle l0)])
         \<and> (\<forall>c. r = Inr c \<longrightarrow> PipeConn.handle c = handle l0)
         \<and> (\<forall>(r', lp', calls') \<in> set rest.
               (\<exists>l'. lp' = Some l' \<and> handle l' = 0) \<and> (\<exists>more. calls' = newInstance name # more))"
proof -
  from NewPipeListener_Inr[OF assms(1)]
  have l0: "addr l0 = name" "\<not> closed l0" "name \<noteq> []" "CHR 0x00 \<notin> set name"
    and made: "CreateNamedPipe os0 = Inr (handle l0)"
              "calls0 = [CallCreateNamedPipe name openMode pipeMode maxInstances outBuffer inBuffer tmo]"
    by simp_all
  from assms(3) have a: "AcceptPipe os (\<lambda>l. l) (Some l0) = Some (r, lp, calls)"
    and b: "AcceptPipe_run oss lp = Some rest"
    by (auto split: option.splits prod.splits)
  from a have "AcceptPipe_connect os (\<lambda>l. l) (l0\<lparr>handle := 0\<rparr>) (handle l0) [] = Some (r, lp, calls)"
    using AcceptPipe_first[of l0 os] assms(2) l0 by simp
  from AcceptPipe_connect_alone[OF this] obtain l where
    l: "lp = Some l" "handle l = 0" "\<not> closed l" "addr l = name"
    and first: "calls = [] \<or> calls = [CallConnectNamedPipe (handle l0)]"
               "\<forall>c. r = Inr c \<longrightarrow> PipeConn.handle c = handle l0"
    using l0 by auto
  from AcceptPipe_run_later[of oss l rest] b l l0
  have "\<forall>(r', lp', calls') \<in> set rest.
          (\<exists>l'. lp' = Some l' \<and> handle l' = 0) \<and> (\<exists>more. calls' = newInstance name # more)"
    by simp
  with l first made show ?thesis by simp
qed

theorem AcceptPipe_first_takes_handle_later_create_witness:
  "NewPipeListener noIP asciiToLower os_ok (localPipe ''srvsvc'') 3 0 255 512 512 0
     = (Inr listener0, [CallCreateNamedPipe (localPipe ''srvsvc'') 3 0 255 512 512 0])
   \<and> handle listener0 \<noteq> 0
   \<and> AcceptPipe_run [os_ok, os_ok\<lparr>CreateNamedPipe := Inr 6, ConnectNamedPipe := Some ERROR_PIPE_CONNECTED\<rparr>]
         (Some listener0)
       = Some [(Inr \<lparr>PipeConn.handle = 5, PipeConn.addr = localPipe ''srvsvc'', readDeadline = None, writeDeadline = None\<rparr>,
                Some (listener0\<lparr>handle := 0\<rparr>), [CallConnectNamedPipe 5]),
               (Inr \<lparr>PipeConn.handle = 6, PipeConn.addr = localPipe ''srvsvc'', readDeadline = None, writeDeadline = None\<rparr>,
                Some (listener0\<lparr>handle := 0\<rparr>),
                [newInstance (localPipe ''srvsvc''), CallConnectNamedPipe 6])]
   \<and> CreateNamedPipe os_ok = Inr (handle listener0)
   \<and> handle (listener0\<lparr>handle := 0\<rparr>) = 0
   \<and> PipeConn.handle \<lparr>PipeConn.handle = 5, PipeConn.addr = localPipe ''srvsvc'', readDeadline = None, writeDeadline = None\<rparr>
       = handle listener0"
proof -
  have h2: "handle listener0 \<noteq> 0" by (simp add: listener0_def)
  note t = AcceptPipe_first_takes_handle_later_create[OF NewPipeListener_srvsvc h2 AcceptPipe_run_srvsvc]
  from t have 1: "CreateNamedPipe os_ok = Inr (handle listener0)" by blast
  from t have 2: "\<exists>l. Some (listener0\<lparr>handle := 0\<rparr>) = Some l \<and> handle l = 0" by blast
  then have 3: "handle (listener0\<lparr>handle := 0\<rparr>) = 0" by auto
  from t have 4: "PipeConn.handle \<lparr>PipeConn.handle = 5, PipeConn.addr = localPipe ''srvsvc'',
                      readDeadline = None, writeDeadline = None\<rparr> = handle listener0"
    by blast
  show ?thesis
    using NewPipeListener_srvsvc h2 AcceptPipe_run_srvsvc 1 3 4 by blast
qed

text \<open>
  C10. Every \<open>PipeError\<close> reports \<open>Temporary\<close> false, whatever its timeout flag (so do the
  timeout-flagged errors of \<^verbatim>\<open>DialTimeout\<close> and of an expired deadline), and \<open>ErrClosed\<close>
  reports \<open>Timeout\<close> false.
\<close>

theorem PipeError_Temporary_false_ErrClosed_no_timeout:
  "Temporary e = False
   \<and> Temporary (timedOutWaiting address) = False \<and> Timeout (timedOutWaiting address) = True
   \<and> Temporary (timeout a) = False \<and> Timeout (timeout a) = True
   \<and> Timeout ErrClosed = False"
  by (simp add: Temporary_def Timeout_def ErrClosed_def timedOutWaiting_def timeout_def)

end
